theory Spec2Isabelle
  imports Complex_Main
begin

section \<open>Python floats\<close>

text \<open>
  The script computes with Python floats, which are IEEE 754 binary64 numbers. A float
  is modelled by the real number it denotes, or by one of the three special values.
  The sign of zero is not modelled: no operation of the script can tell the two zeros
  apart, except in the text it prints.
\<close>

datatype pyfloat = Finite real | PInf | NInf | NaN

text \<open>
  \<open>expo x\<close> is the binary exponent of a positive real: \<open>2 ^ expo x \<le> x < 2 ^ (expo x + 1)\<close>.
\<close>

function expo :: "real \<Rightarrow> int" where
  "expo x = (if x \<le> 0 then 0
             else if x < 1 then expo (2 * x) - 1
             else if 2 \<le> x then expo (x / 2) + 1
             else 0)"
  by pat_completeness auto
termination
proof (relation "measure (\<lambda>x. nat \<bar>\<lfloor>log 2 x\<rfloor>\<bar>)")
  show "wf (measure (\<lambda>x. nat \<bar>\<lfloor>log 2 x\<rfloor>\<bar>))" by simp
next
  fix x :: real
  assume small: "\<not> x \<le> 0" "x < 1"
  then have "log 2 x < 0" by simp
  then have below: "\<lfloor>log 2 x\<rfloor> \<le> - 1" by linarith
  have "log 2 (2 * x) = 1 + log 2 x" using small by (simp add: log_mult)
  then have "\<lfloor>log 2 (2 * x)\<rfloor> = \<lfloor>log 2 x\<rfloor> + 1" by simp
  with below show "(2 * x, x) \<in> measure (\<lambda>x. nat \<bar>\<lfloor>log 2 x\<rfloor>\<bar>)" by simp
next
  fix x :: real
  assume large: "\<not> x \<le> 0" "\<not> x < 1" "2 \<le> x"
  then have "1 \<le> log 2 x" by (simp add: le_log_iff)
  then have above: "1 \<le> \<lfloor>log 2 x\<rfloor>" by linarith
  have "log 2 (x / 2) = log 2 x - 1" using large by (simp add: log_divide)
  then have "\<lfloor>log 2 (x / 2)\<rfloor> = \<lfloor>log 2 x\<rfloor> - 1" by simp
  with above show "(x / 2, x) \<in> measure (\<lambda>x. nat \<bar>\<lfloor>log 2 x\<rfloor>\<bar>)" by simp
qed

declare expo.simps [simp del]

text \<open>Rounding a real to the nearest integer, ties to the even one.\<close>

definition rne :: "real \<Rightarrow> int" where
  "rne y = (let n = \<lfloor>y\<rfloor>; d = y - of_int n
            in if d < 1 / 2 then n
               else if 1 / 2 < d then n + 1
               else if even n then n else n + 1)"

text \<open>
  The spacing of the binary64 numbers around \<open>x\<close>: 53 significant bits, and the
  smallest exponent \<open>- 1022\<close> (below it the numbers are subnormal and equally spaced).
\<close>

definition quantum :: "real \<Rightarrow> real" where
  "quantum x = (let e = max (expo \<bar>x\<bar>) (- 1022) - 52
                in if 0 \<le> e then 2 ^ nat e else 1 / 2 ^ nat (- e))"

text \<open>Round to nearest, ties to even; a result beyond the largest float is an infinity.\<close>

definition b64 :: "real \<Rightarrow> pyfloat" where
  "b64 x = (let q = quantum x; r = of_int (rne (x / q)) * q
            in if 2 ^ 1024 \<le> r then PInf
               else if r \<le> - (2 ^ 1024) then NInf
               else Finite r)"

text \<open>A float literal of the source denotes the float nearest to its decimal value.\<close>

definition float_lit :: "real \<Rightarrow> pyfloat" where
  "float_lit x = b64 x"

text \<open>The exceptions that can end the run.\<close>

datatype error =
    ValidationError
  | UnknownMethodError
  | DegenerateInputError
  | KeyError string
  | ZeroDivisionError
  | OtherError string

text \<open>Python's \<open>a - b\<close>, \<open>abs(a)\<close>, \<open>a * b\<close>, \<open>a / b\<close> and \<open>a < b\<close> on floats.\<close>

fun fsub :: "pyfloat \<Rightarrow> pyfloat \<Rightarrow> pyfloat" where
  "fsub (Finite a) (Finite b) = b64 (a - b)"
| "fsub NaN _ = NaN"
| "fsub _ NaN = NaN"
| "fsub PInf PInf = NaN"
| "fsub NInf NInf = NaN"
| "fsub PInf _ = PInf"
| "fsub NInf _ = NInf"
| "fsub (Finite a) PInf = NInf"
| "fsub (Finite a) NInf = PInf"

fun fabs :: "pyfloat \<Rightarrow> pyfloat" where
  "fabs (Finite a) = Finite \<bar>a\<bar>"
| "fabs PInf = PInf"
| "fabs NInf = PInf"
| "fabs NaN = NaN"

fun fneg :: "pyfloat \<Rightarrow> pyfloat" where
  "fneg (Finite a) = Finite (- a)"
| "fneg PInf = NInf"
| "fneg NInf = PInf"
| "fneg NaN = NaN"

fun inf_times :: "pyfloat \<Rightarrow> pyfloat" where
  "inf_times (Finite b) = (if b = 0 then NaN else if 0 < b then PInf else NInf)"
| "inf_times PInf = PInf"
| "inf_times NInf = NInf"
| "inf_times NaN = NaN"

fun fmul :: "pyfloat \<Rightarrow> pyfloat \<Rightarrow> pyfloat" where
  "fmul (Finite a) (Finite b) = b64 (a * b)"
| "fmul NaN _ = NaN"
| "fmul _ NaN = NaN"
| "fmul PInf b = inf_times b"
| "fmul NInf b = fneg (inf_times b)"
| "fmul a PInf = inf_times a"
| "fmul a NInf = fneg (inf_times a)"

text \<open>
  Float division raises \<open>ZeroDivisionError\<close> whenever the divisor is zero, whatever
  the dividend is.
\<close>

fun fdiv :: "pyfloat \<Rightarrow> pyfloat \<Rightarrow> error + pyfloat" where
  "fdiv a (Finite b) =
     (if b = 0 then Inl ZeroDivisionError
      else case a of
             Finite x \<Rightarrow> Inr (b64 (x / b))
           | PInf \<Rightarrow> Inr (if 0 < b then PInf else NInf)
           | NInf \<Rightarrow> Inr (if 0 < b then NInf else PInf)
           | NaN \<Rightarrow> Inr NaN)"
| "fdiv a NaN = Inr NaN"
| "fdiv (Finite x) _ = Inr (Finite 0)"
| "fdiv _ _ = Inr NaN"

fun flt :: "pyfloat \<Rightarrow> pyfloat \<Rightarrow> bool" where
  "flt (Finite a) (Finite b) = (a < b)"
| "flt NaN _ = False"
| "flt _ NaN = False"
| "flt _ NInf = False"
| "flt PInf _ = False"
| "flt _ _ = True"

definition fle :: "pyfloat \<Rightarrow> pyfloat \<Rightarrow> bool" where
  "fle a b = (flt a b \<or> (a = b \<and> a \<noteq> NaN))"

section \<open>The engine the script imports\<close>

text \<open>
  The three functions imported from \<open>uha_official\<close> are not part of the repository.
  The script is modelled over any implementation of them: a value of type \<open>engine\<close>.
  A function of the engine returns a value or raises; it is taken to be a pure
  function that leaves its arguments unchanged. A measurement is the object returned by
  \<open>create_measurement\<close>, with the attributes the script reads; the two dictionaries
  returned by the other functions are maps from keys to floats. The integer literal
  \<open>1090\<close> passed as a redshift is represented by the float of the same value.
\<close>

record 'n measurement =
  name :: string
  "value" :: 'n
  sigma :: 'n
  redshift :: 'n
  omega_m :: 'n
  "method" :: string

type_synonym py_dict = "string \<rightharpoonup> pyfloat"

record engine =
  create_measurement ::
    "string \<Rightarrow> pyfloat \<Rightarrow> pyfloat \<Rightarrow> pyfloat \<Rightarrow> pyfloat \<Rightarrow> string
      \<Rightarrow> error + pyfloat measurement"
  merge_with_epistemic_correction ::
    "pyfloat measurement \<Rightarrow> pyfloat measurement \<Rightarrow> error + py_dict"
  calculate_concordance_stats ::
    "pyfloat \<Rightarrow> pyfloat \<Rightarrow> pyfloat \<Rightarrow> pyfloat \<Rightarrow> error + py_dict"

section \<open>The script\<close>

text \<open>
  What a run does is recorded as a list of events: the calls into the engine with
  their arguments, and the lines printed. A line that formats data is an event that
  carries the data (\<open>Show_gap g\<close> is line 103, \<open>Show_merged\<close> line 113,
  \<open>Show_delta_T\<close> line 114, \<open>Show_offset\<close> line 126, \<open>Show_significance\<close>
  line 127, \<open>Show_reduction\<close> line 132, \<open>Show_summary\<close> lines 140 to 142,
  \<open>Show_verdict\<close> lines 145 to 150, \<open>Show_measurement\<close> lines 90 to 93 and 95 to 98).
  The fixed decoration that \<open>main\<close> prints between them is left out. The lines printed
  when the import fails are plain text and are kept as they are (\<open>Print\<close>).
\<close>

datatype verdict = CONCORDANCE_ACHIEVED | MILD_TENSION | SIGNIFICANT_TENSION

datatype event =
    Print string
  | Call_create string pyfloat pyfloat pyfloat pyfloat string
  | Show_measurement "pyfloat measurement"
  | Show_gap pyfloat
  | Call_merge "pyfloat measurement" "pyfloat measurement"
  | Show_merged pyfloat pyfloat
  | Show_delta_T pyfloat
  | Call_stats pyfloat pyfloat pyfloat pyfloat
  | Show_offset pyfloat
  | Show_significance pyfloat
  | Show_reduction pyfloat
  | Show_summary pyfloat pyfloat pyfloat
  | Show_verdict verdict

text \<open>\<open>d[k]\<close> on a dictionary raises \<open>KeyError\<close> when the key is missing.\<close>

definition lookup :: "py_dict \<Rightarrow> string \<Rightarrow> error + pyfloat" where
  "lookup d k = (case d k of None \<Rightarrow> Inl (KeyError k) | Some v \<Rightarrow> Inr v)"

text \<open>Lines 145 to 150: the branch taken on the significance.\<close>

definition classify :: "pyfloat \<Rightarrow> verdict" where
  "classify significance_sigma =
     (if flt significance_sigma (float_lit 1.5) then CONCORDANCE_ACHIEVED
      else if flt significance_sigma (float_lit 3.0) then MILD_TENSION
      else SIGNIFICANT_TENSION)"

text \<open>Line 102.\<close>

definition initial_gap_of :: "pyfloat measurement \<Rightarrow> pyfloat measurement \<Rightarrow> pyfloat" where
  "initial_gap_of planck shoes = fabs (fsub (value shoes) (value planck))"

text \<open>Line 131; the integer literals \<open>1\<close> and \<open>100\<close> are converted to floats exactly.\<close>

definition reduction_pct_of :: "pyfloat \<Rightarrow> pyfloat \<Rightarrow> error + pyfloat" where
  "reduction_pct_of offset initial_gap =
     (case fdiv offset initial_gap of
        Inl e \<Rightarrow> Inl e
      | Inr q \<Rightarrow> Inr (fmul (fsub (Finite 1) q) (Finite 100)))"

text \<open>Lines 117 to 169, once the merge has returned \<open>result\<close>.\<close>

definition concordance_part ::
  "engine \<Rightarrow> pyfloat measurement \<Rightarrow> pyfloat \<Rightarrow> py_dict \<Rightarrow> pyfloat \<Rightarrow> pyfloat \<Rightarrow> pyfloat
    \<Rightarrow> event list \<times> (error + py_dict)" where
  "concordance_part E planck initial_gap result h0 u dT =
     (let call = Call_stats h0 u (value planck) (sigma planck) in
      case calculate_concordance_stats E h0 u (value planck) (sigma planck) of
        Inl e \<Rightarrow> ([call], Inl e)
      | Inr stats \<Rightarrow>
     (case lookup stats ''offset_km_s_Mpc'' of
        Inl e \<Rightarrow> ([call], Inl e)
      | Inr off \<Rightarrow>
     (case lookup stats ''significance_sigma'' of
        Inl e \<Rightarrow> ([call, Show_offset off], Inl e)
      | Inr sg \<Rightarrow>
     (case reduction_pct_of off initial_gap of
        Inl e \<Rightarrow> ([call, Show_offset off, Show_significance sg], Inl e)
      | Inr reduction_pct \<Rightarrow>
          ([call, Show_offset off, Show_significance sg, Show_reduction reduction_pct,
            Show_summary reduction_pct sg dT, Show_verdict (classify sg)],
           Inr [''h0_merged'' \<mapsto> h0,
                ''u_merged'' \<mapsto> u,
                ''delta_T'' \<mapsto> dT,
                ''concordance_pct'' \<mapsto> reduction_pct,
                ''significance'' \<mapsto> sg])))))"

text \<open>Lines 100 to 115, once both measurements exist, followed by the rest.\<close>

definition merge_part ::
  "engine \<Rightarrow> pyfloat measurement \<Rightarrow> pyfloat measurement \<Rightarrow> event list \<times> (error + py_dict)" where
  "merge_part E planck shoes =
     (let initial_gap = initial_gap_of planck shoes;
          before = [Show_measurement planck, Show_measurement shoes, Show_gap initial_gap,
                    Call_merge planck shoes] in
      case merge_with_epistemic_correction E planck shoes of
        Inl e \<Rightarrow> (before, Inl e)
      | Inr result \<Rightarrow>
     (case lookup result ''h0_merged'' of
        Inl e \<Rightarrow> (before, Inl e)
      | Inr h0 \<Rightarrow>
     (case lookup result ''u_merged'' of
        Inl e \<Rightarrow> (before, Inl e)
      | Inr u \<Rightarrow>
     (case lookup result ''delta_T'' of
        Inl e \<Rightarrow> (before @ [Show_merged h0 u], Inl e)
      | Inr dT \<Rightarrow>
          (case concordance_part E planck initial_gap result h0 u dT of
             (tr, r) \<Rightarrow> (before @ [Show_merged h0 u, Show_delta_T dT] @ tr, r))))))"

text \<open>Lines 72 to 88: the two calls that build the measurements.\<close>

definition planck_call :: event where
  "planck_call = Call_create ''Planck 2018 CMB'' (float_lit 67.4) (float_lit 0.5)
                   (Finite 1090) (float_lit 0.315) ''indirect''"

definition shoes_call :: event where
  "shoes_call = Call_create ''SH0ES Distance Ladder'' (float_lit 73.47) (float_lit 0.14)
                  (float_lit 0.01) (float_lit 0.300) ''direct''"

definition create_planck :: "engine \<Rightarrow> error + pyfloat measurement" where
  "create_planck E = create_measurement E ''Planck 2018 CMB'' (float_lit 67.4) (float_lit 0.5)
                       (Finite 1090) (float_lit 0.315) ''indirect''"

definition create_shoes :: "engine \<Rightarrow> error + pyfloat measurement" where
  "create_shoes E = create_measurement E ''SH0ES Distance Ladder'' (float_lit 73.47)
                      (float_lit 0.14) (float_lit 0.01) (float_lit 0.300) ''direct''"

text \<open>
  \<open>main\<close>: the events of the run and what it returns, the dictionary of line 163 or
  the exception that ended it. Nothing in \<open>main\<close> catches an exception.
\<close>

definition main :: "engine \<Rightarrow> event list \<times> (error + py_dict)" where
  "main E =
     (case create_planck E of
        Inl e \<Rightarrow> ([planck_call], Inl e)
      | Inr planck \<Rightarrow>
     (case create_shoes E of
        Inl e \<Rightarrow> ([planck_call, shoes_call], Inl e)
      | Inr shoes \<Rightarrow>
          (case merge_part E planck shoes of
             (tr, r) \<Rightarrow> ([planck_call, shoes_call] @ tr, r))))"

text \<open>
  Lines 26 to 49 and 172 to 173: the script run as a program. The import either gives
  the engine or raises \<open>ImportError\<close>; the result is the events and the exit status
  of the process.
\<close>

datatype import_result = Imported engine | ImportError

definition install_message :: "string list" where
  "install_message =
     [replicate 70 (CHR ''=''),
      ''ERROR: UHA Official binary not installed'',
      replicate 70 (CHR ''=''),
      '''',
      ''This reproduction script requires the official UHA binary wheel.'',
      '''',
      ''Installation:'',
      ''  pip install uha-official>=1.0.0'',
      '''',
      ''Or download from:'',
      ''  https://github.com/abba-01/uha-official/releases'',
      '''',
      ''For licensing inquiries: eric.martin1@wsu.edu'',
      '''']"

definition script :: "import_result \<Rightarrow> event list \<times> nat" where
  "script imp =
     (case imp of
        ImportError \<Rightarrow> (map Print install_message, 1)
      | Imported E \<Rightarrow>
          (case main E of
             (tr, Inl e) \<Rightarrow> (tr, 1)
           | (tr, Inr results) \<Rightarrow> (tr, 0)))"

text \<open>The calls into the engine among the events of a run.\<close>

fun is_call :: "event \<Rightarrow> bool" where
  "is_call (Call_create n v s z om me) = True"
| "is_call (Call_merge a b) = True"
| "is_call (Call_stats h u v s) = True"
| "is_call _ = False"

definition engine_calls :: "event list \<Rightarrow> event list" where
  "engine_calls tr = filter is_call tr"

text \<open>The events of one kind in a run.\<close>

fun is_create :: "event \<Rightarrow> bool" where
  "is_create (Call_create n v s z om me) = True"
| "is_create _ = False"

fun is_verdict :: "event \<Rightarrow> bool" where
  "is_verdict (Show_verdict v) = True"
| "is_verdict _ = False"

text \<open>
  A stand-in for the binary, to run \<open>main\<close> on a concrete engine: it stores the
  arguments of a measurement as they are and answers with fixed dictionaries.
\<close>

definition stub_engine :: engine where
  "stub_engine =
     \<lparr>create_measurement = (\<lambda>n v s z om me.
         Inr \<lparr>name = n, value = v, sigma = s, redshift = z, omega_m = om, method = me\<rparr>),
      merge_with_epistemic_correction = (\<lambda>a b.
         Inr [''h0_merged'' \<mapsto> Finite 67.5, ''u_merged'' \<mapsto> Finite 1, ''delta_T'' \<mapsto> Finite 12]),
      calculate_concordance_stats = (\<lambda>h u v s.
         Inr [''offset_km_s_Mpc'' \<mapsto> fabs (fsub h v), ''significance_sigma'' \<mapsto> Finite 0.125])\<rparr>"

definition stub_results :: py_dict where
  "stub_results =
     [''h0_merged'' \<mapsto> Finite 67.5,
      ''u_merged'' \<mapsto> Finite 1,
      ''delta_T'' \<mapsto> Finite 12,
      ''concordance_pct'' \<mapsto> Finite (3460472839708851 / 2 ^ 45),
      ''significance'' \<mapsto> Finite 0.125]"

fun is_stats :: "event \<Rightarrow> bool" where
  "is_stats (Call_stats h u v s) = True"
| "is_stats _ = False"

text \<open>The two measurements of the run when the engine stores the arguments as they are.\<close>

definition stored_planck :: "pyfloat measurement" where
  "stored_planck = \<lparr>name = ''Planck 2018 CMB'', value = float_lit 67.4, sigma = float_lit 0.5,
                     redshift = Finite 1090, omega_m = float_lit 0.315, method = ''indirect''\<rparr>"

definition stored_shoes :: "pyfloat measurement" where
  "stored_shoes = \<lparr>name = ''SH0ES Distance Ladder'', value = float_lit 73.47,
                    sigma = float_lit 0.14, redshift = float_lit 0.01,
                    omega_m = float_lit 0.300, method = ''direct''\<rparr>"

section \<open>The engine as the specification describes it\<close>

text \<open>
  Modelled from the spec: the constructor of MeasurementModel (section 4.1), which
  belongs to the engine and is absent from the repository. It validates \<open>sigma > 0\<close>
  and \<open>redshift \<ge> 0\<close>, failing with \<open>ValidationError\<close> otherwise, and the
  method tag, failing with \<open>UnknownMethodError\<close> otherwise. The specification does not
  say which of the two checks is made first, so the order is a parameter. The fields are
  real numbers, as in the specification's data model.
\<close>

datatype check_order = Numbers_first | Method_first

definition MeasurementModel ::
  "check_order \<Rightarrow> string \<Rightarrow> real \<Rightarrow> real \<Rightarrow> real \<Rightarrow> real \<Rightarrow> string
    \<Rightarrow> error + real measurement" where
  "MeasurementModel order n v s z om me =
     (let numbers_ok = (0 < s \<and> 0 \<le> z);
          method_ok = (me \<in> {''direct'', ''indirect''});
          m = \<lparr>name = n, value = v, sigma = s, redshift = z, omega_m = om, method = me\<rparr>
      in case order of
           Numbers_first \<Rightarrow>
             if \<not> numbers_ok then Inl ValidationError
             else if \<not> method_ok then Inl UnknownMethodError
             else Inr m
         | Method_first \<Rightarrow>
             if \<not> method_ok then Inl UnknownMethodError
             else if \<not> numbers_ok then Inl ValidationError
             else Inr m)"

text \<open>
  Modelled from the spec: a valid measurement is one that the constructor returns for
  its own fields, whichever check it makes first.
\<close>

definition valid_measurement :: "real measurement \<Rightarrow> bool" where
  "valid_measurement m =
     (MeasurementModel Numbers_first (name m) (value m) (sigma m) (redshift m) (omega_m m)
        (method m) = Inr m \<and>
      MeasurementModel Method_first (name m) (value m) (sigma m) (redshift m) (omega_m m)
        (method m) = Inr m)"

text \<open>Modelled from the spec: MergedEstimate (section 3).\<close>

record MergedEstimate =
  h0_merged :: real
  u_merged :: real
  delta_T :: real

text \<open>
  Modelled from the spec: the operation \<open>merge\<close> of EpistemicMerger (section 4.2,
  steps 1 to 6), absent from the repository. The bias fraction \<open>f\<close> and the
  inflation \<open>threshold\<close> are the two configuration constants, whose values the
  specification leaves open; they are parameters here. The nudge of step 3 moves the
  weighted mean towards the value of the direct measurement by \<open>f\<close> times the gap
  between the two values.
\<close>

definition merge ::
  "real \<Rightarrow> real \<Rightarrow> real measurement \<Rightarrow> real measurement \<Rightarrow> error + MergedEstimate" where
  "merge f threshold a b =
     (if sigma a = 0 \<or> sigma b = 0 then Inl DegenerateInputError
      else
        let tension = \<bar>value a - value b\<bar> / sqrt ((sigma a)\<^sup>2 + (sigma b)\<^sup>2);
            w_a = 1 / (sigma a)\<^sup>2;
            w_b = 1 / (sigma b)\<^sup>2;
            h0_raw = (w_a * value a + w_b * value b) / (w_a + w_b);
            h0_raw_adjusted =
              (if method a \<noteq> method b
               then if method a = ''direct'' then h0_raw + f * (value a - value b)
                    else if method b = ''direct'' then h0_raw + f * (value b - value a)
                    else h0_raw
               else h0_raw);
            k = max 1 (tension / threshold)
        in Inr \<lparr>h0_merged = h0_raw_adjusted,
                 u_merged = k * sqrt (1 / (w_a + w_b)),
                 delta_T = tension\<rparr>)"

text \<open>The seed measurements of the specification's end-to-end scenario, as real numbers.\<close>

definition seed_planck :: "real measurement" where
  "seed_planck = \<lparr>name = ''Planck 2018 CMB'', value = 67.4, sigma = 0.5, redshift = 1090,
                   omega_m = 0.315, method = ''indirect''\<rparr>"

definition seed_shoes :: "real measurement" where
  "seed_shoes = \<lparr>name = ''SH0ES Distance Ladder'', value = 73.47, sigma = 0.14,
                  redshift = 0.01, omega_m = 0.300, method = ''direct''\<rparr>"

text \<open>The second seed measurement with its value moved further away from the first.\<close>

definition far_shoes :: "real measurement" where
  "far_shoes = seed_shoes\<lparr>value := 75\<rparr>"

section \<open>Evaluating the float operations\<close>

lemmas b64_eval = float_lit_def b64_def quantum_def expo.simps rne_def Let_def

lemma float_lit_1_5: "float_lit 1.5 = Finite 1.5"
  by (simp add: b64_eval)

lemma float_lit_3: "float_lit 3.0 = Finite 3"
  by (simp add: b64_eval)

lemma float_lit_67_4: "float_lit 67.4 = Finite (4742853357574554 / 2 ^ 46)"
  by (simp add: b64_eval)

lemma float_lit_73_47: "float_lit 73.47 = Finite (5169991634732974 / 2 ^ 46)"
  by (simp add: b64_eval)

lemma seed_gap:
  "fabs (fsub (float_lit 73.47) (float_lit 67.4)) = Finite (427138277158420 / 2 ^ 46)"
  unfolding float_lit_67_4 float_lit_73_47
  by (simp add: b64_eval)

lemma stub_run: "snd (main stub_engine) = Inr stub_results"
  by (simp add: main_def create_planck_def create_shoes_def merge_part_def
      concordance_part_def stub_engine_def stub_results_def lookup_def initial_gap_of_def
      reduction_pct_of_def b64_eval)

lemma lookup_Inr: "lookup d k = Inr v \<longleftrightarrow> d k = Some v"
  by (simp add: lookup_def split: option.splits)

lemma concordance_part_returns:
  assumes "concordance_part E planck g result h0 u dT = (tr, Inr d)"
  obtains stats off sg pct where
    "calculate_concordance_stats E h0 u (value planck) (sigma planck) = Inr stats"
    "stats ''offset_km_s_Mpc'' = Some off"
    "stats ''significance_sigma'' = Some sg"
    "reduction_pct_of off g = Inr pct"
    "tr = [Call_stats h0 u (value planck) (sigma planck), Show_offset off,
           Show_significance sg, Show_reduction pct, Show_summary pct sg dT,
           Show_verdict (classify sg)]"
    "d = [''h0_merged'' \<mapsto> h0, ''u_merged'' \<mapsto> u, ''delta_T'' \<mapsto> dT,
          ''concordance_pct'' \<mapsto> pct, ''significance'' \<mapsto> sg]"
  using assms
  by (auto simp: concordance_part_def Let_def lookup_Inr split: sum.splits)

lemma merge_part_returns:
  assumes "merge_part E planck shoes = (tr, Inr d)"
  obtains result h0 u dT tr' where
    "merge_with_epistemic_correction E planck shoes = Inr result"
    "result ''h0_merged'' = Some h0"
    "result ''u_merged'' = Some u"
    "result ''delta_T'' = Some dT"
    "concordance_part E planck (initial_gap_of planck shoes) result h0 u dT = (tr', Inr d)"
    "tr = [Show_measurement planck, Show_measurement shoes,
           Show_gap (initial_gap_of planck shoes), Call_merge planck shoes,
           Show_merged h0 u, Show_delta_T dT] @ tr'"
  using assms
  by (auto simp: merge_part_def Let_def lookup_Inr split: sum.splits prod.splits)

lemma main_returns:
  assumes "main E = (tr, Inr d)"
  obtains planck shoes tr' where
    "create_planck E = Inr planck"
    "create_shoes E = Inr shoes"
    "merge_part E planck shoes = (tr', Inr d)"
    "tr = [planck_call, shoes_call] @ tr'"
  using assms
  by (auto simp: main_def split: sum.splits prod.splits)

text \<open>A run that returns, step by step.\<close>

lemma run_returns:
  assumes "snd (main E) = Inr d"
  obtains planck shoes result h0 u dT stats off sg pct where
    "create_planck E = Inr planck"
    "create_shoes E = Inr shoes"
    "merge_with_epistemic_correction E planck shoes = Inr result"
    "result ''h0_merged'' = Some h0"
    "result ''u_merged'' = Some u"
    "result ''delta_T'' = Some dT"
    "calculate_concordance_stats E h0 u (value planck) (sigma planck) = Inr stats"
    "stats ''offset_km_s_Mpc'' = Some off"
    "stats ''significance_sigma'' = Some sg"
    "reduction_pct_of off (initial_gap_of planck shoes) = Inr pct"
    "fst (main E) =
       [planck_call, shoes_call, Show_measurement planck, Show_measurement shoes,
        Show_gap (initial_gap_of planck shoes), Call_merge planck shoes,
        Show_merged h0 u, Show_delta_T dT,
        Call_stats h0 u (value planck) (sigma planck), Show_offset off,
        Show_significance sg, Show_reduction pct, Show_summary pct sg dT,
        Show_verdict (classify sg)]"
    "d = [''h0_merged'' \<mapsto> h0, ''u_merged'' \<mapsto> u, ''delta_T'' \<mapsto> dT,
          ''concordance_pct'' \<mapsto> pct, ''significance'' \<mapsto> sg]"
proof -
  from assms have m: "main E = (fst (main E), Inr d)"
    by (metis prod.collapse)
  from main_returns [OF m] obtain planck shoes tr1 where
    1: "create_planck E = Inr planck" "create_shoes E = Inr shoes"
       "merge_part E planck shoes = (tr1, Inr d)"
       "fst (main E) = [planck_call, shoes_call] @ tr1"
    by blast
  from merge_part_returns [OF 1(3)] obtain result h0 u dT tr2 where
    2: "merge_with_epistemic_correction E planck shoes = Inr result"
       "result ''h0_merged'' = Some h0" "result ''u_merged'' = Some u"
       "result ''delta_T'' = Some dT"
       "concordance_part E planck (initial_gap_of planck shoes) result h0 u dT = (tr2, Inr d)"
       "tr1 = [Show_measurement planck, Show_measurement shoes,
           Show_gap (initial_gap_of planck shoes), Call_merge planck shoes,
           Show_merged h0 u, Show_delta_T dT] @ tr2"
    by blast
  from concordance_part_returns [OF 2(5)] obtain stats off sg pct where
    3: "calculate_concordance_stats E h0 u (value planck) (sigma planck) = Inr stats"
       "stats ''offset_km_s_Mpc'' = Some off"
       "stats ''significance_sigma'' = Some sg"
       "reduction_pct_of off (initial_gap_of planck shoes) = Inr pct"
       "tr2 = [Call_stats h0 u (value planck) (sigma planck), Show_offset off,
           Show_significance sg, Show_reduction pct, Show_summary pct sg dT,
           Show_verdict (classify sg)]"
       "d = [''h0_merged'' \<mapsto> h0, ''u_merged'' \<mapsto> u, ''delta_T'' \<mapsto> dT,
          ''concordance_pct'' \<mapsto> pct, ''significance'' \<mapsto> sg]"
    by blast
  show ?thesis
    using that [OF 1(1,2) 2(1,2,3,4) 3(1,2,3,4) _ 3(6)] 1(4) 2(6) 3(5) by simp
qed

lemma merge_part_trace:
  "\<exists>after. fst (merge_part E planck shoes) =
     [Show_measurement planck, Show_measurement shoes,
      Show_gap (initial_gap_of planck shoes), Call_merge planck shoes] @ after"
  by (auto simp: merge_part_def Let_def split: sum.splits prod.splits)

lemma concordance_part_creates:
  "concordance_part E planck g result h0 u dT = (tr, r) \<Longrightarrow> filter is_create tr = []"
  by (auto simp: concordance_part_def Let_def split: sum.splits)

lemma merge_part_creates:
  "filter is_create (fst (merge_part E planck shoes)) = []"
  by (auto simp: merge_part_def Let_def split: sum.splits prod.splits
      dest: concordance_part_creates)

lemma concordance_part_stats:
  "concordance_part E planck g result h0 u dT = (tr, r) \<Longrightarrow>
     filter is_stats tr = [Call_stats h0 u (value planck) (sigma planck)]"
  by (auto simp: concordance_part_def Let_def split: sum.splits)

lemma merge_part_stats:
  "filter is_stats (fst (merge_part E planck shoes)) = [] \<or>
   (\<exists>h0 u. filter is_stats (fst (merge_part E planck shoes)) =
      [Call_stats h0 u (value planck) (sigma planck)])"
  by (auto simp: merge_part_def Let_def split: sum.splits prod.splits
      dest: concordance_part_stats)

lemma main_stats:
  "filter is_stats (fst (main E)) = [] \<or>
   (\<exists>planck h0 u. create_planck E = Inr planck \<and>
      filter is_stats (fst (main E)) = [Call_stats h0 u (value planck) (sigma planck)])"
proof (cases "create_planck E")
  case (Inl e)
  then show ?thesis by (simp add: main_def planck_call_def)
next
  case planck: (Inr planck)
  show ?thesis
  proof (cases "create_shoes E")
    case (Inl e)
    with planck show ?thesis by (simp add: main_def planck_call_def shoes_call_def)
  next
    case (Inr shoes)
    with planck have "filter is_stats (fst (main E)) =
        filter is_stats (fst (merge_part E planck shoes))"
      by (simp add: main_def planck_call_def shoes_call_def split: prod.splits)
    with merge_part_stats [of E planck shoes] planck show ?thesis by auto
  qed
qed

lemma stub_planck: "create_planck stub_engine = Inr stored_planck"
  by (simp add: create_planck_def stub_engine_def stored_planck_def)

lemma stub_shoes: "create_shoes stub_engine = Inr stored_shoes"
  by (simp add: create_shoes_def stub_engine_def stored_shoes_def)

lemma stub_stats_call:
  "Call_stats (Finite 67.5) (Finite 1) (float_lit 67.4) (float_lit 0.5)
     \<in> set (fst (main stub_engine))"
  by (simp add: main_def create_planck_def create_shoes_def merge_part_def
      concordance_part_def stub_engine_def lookup_def initial_gap_of_def
      reduction_pct_of_def b64_eval)

section \<open>The claims about the script\<close>

lemma classify_cases:
  "(flt sg (Finite 1.5) \<longrightarrow> classify sg = CONCORDANCE_ACHIEVED) \<and>
   (fle (Finite 1.5) sg \<and> flt sg (Finite 3) \<longrightarrow> classify sg = MILD_TENSION) \<and>
   (fle (Finite 3) sg \<longrightarrow> classify sg = SIGNIFICANT_TENSION)"
  unfolding classify_def float_lit_1_5 float_lit_3
  by (cases sg) (auto simp: fle_def)

text \<open>
  Claim C1. In a run of \<open>main\<close> that returns, the significance found in the
  dictionary returned by the concordance step is classified by two fixed thresholds, and the
  run prints exactly one verdict: below 1.5 it is "concordance achieved", from 1.5 and below
  3.0 "mild tension", from 3.0 on "significant tension".
\<close>

theorem classification_by_thresholds:
  assumes "snd (main E) = Inr d"
  shows "\<exists>h0 u v s stats sg.
           Call_stats h0 u v s \<in> set (fst (main E)) \<and>
           calculate_concordance_stats E h0 u v s = Inr stats \<and>
           stats ''significance_sigma'' = Some sg \<and>
           filter is_verdict (fst (main E)) = [Show_verdict (classify sg)] \<and>
           (flt sg (Finite 1.5) \<longrightarrow> classify sg = CONCORDANCE_ACHIEVED) \<and>
           (fle (Finite 1.5) sg \<and> flt sg (Finite 3) \<longrightarrow> classify sg = MILD_TENSION) \<and>
           (fle (Finite 3) sg \<longrightarrow> classify sg = SIGNIFICANT_TENSION)"
proof (rule run_returns [OF assms])
  fix planck shoes result h0 u dT stats off sg pct
  assume stats: "calculate_concordance_stats E h0 u (value planck) (sigma planck) = Inr stats"
    and sg: "stats ''significance_sigma'' = Some sg"
    and tr: "fst (main E) =
         [planck_call, shoes_call, Show_measurement planck, Show_measurement shoes,
          Show_gap (initial_gap_of planck shoes), Call_merge planck shoes,
          Show_merged h0 u, Show_delta_T dT,
          Call_stats h0 u (value planck) (sigma planck), Show_offset off,
          Show_significance sg, Show_reduction pct, Show_summary pct sg dT,
          Show_verdict (classify sg)]"
  have call: "Call_stats h0 u (value planck) (sigma planck) \<in> set (fst (main E))"
    by (simp add: tr)
  have verdicts: "filter is_verdict (fst (main E)) = [Show_verdict (classify sg)]"
    by (simp add: tr planck_call_def shoes_call_def)
  note c = classify_cases [of sg]
  show ?thesis
    by (intro exI conjI, rule call, rule stats, rule sg, rule verdicts,
        rule c [THEN conjunct1], rule c [THEN conjunct2, THEN conjunct1],
        rule c [THEN conjunct2, THEN conjunct2])
qed

theorem classification_by_thresholds_witness:
  "snd (main stub_engine) = Inr stub_results \<and>
   (\<exists>h0 u v s stats sg.
      Call_stats h0 u v s \<in> set (fst (main stub_engine)) \<and>
      calculate_concordance_stats stub_engine h0 u v s = Inr stats \<and>
      stats ''significance_sigma'' = Some sg \<and>
      filter is_verdict (fst (main stub_engine)) = [Show_verdict (classify sg)] \<and>
      (flt sg (Finite 1.5) \<longrightarrow> classify sg = CONCORDANCE_ACHIEVED) \<and>
      (fle (Finite 1.5) sg \<and> flt sg (Finite 3) \<longrightarrow> classify sg = MILD_TENSION) \<and>
      (fle (Finite 3) sg \<longrightarrow> classify sg = SIGNIFICANT_TENSION))"
  by (rule conjI [OF stub_run classification_by_thresholds [OF stub_run]])

text \<open>
  Claim C2. In a run that returns, the tension reduction is computed in \<open>main\<close>, from
  two inputs only: \<open>offset_before\<close>, the absolute difference of the values of the two
  measurements, computed and printed before the merge is called, and \<open>offset_after\<close>,
  the entry \<open>offset_km_s_Mpc\<close> of the dictionary returned by the concordance step. The
  entry \<open>concordance_pct\<close> of the result is \<open>(1 - offset_after / offset_before) * 100\<close>
  in float arithmetic.
\<close>

theorem reduction_pct_formula:
  assumes "snd (main E) = Inr d"
  shows "\<exists>planck shoes h0 u stats offset_before offset_after q.
           create_planck E = Inr planck \<and> create_shoes E = Inr shoes \<and>
           offset_before = fabs (fsub (value shoes) (value planck)) \<and>
           calculate_concordance_stats E h0 u (value planck) (sigma planck) = Inr stats \<and>
           stats ''offset_km_s_Mpc'' = Some offset_after \<and>
           fdiv offset_after offset_before = Inr q \<and>
           d ''concordance_pct'' = Some (fmul (fsub (Finite 1) q) (Finite 100)) \<and>
           (\<exists>after. fst (main E) =
              [planck_call, shoes_call, Show_measurement planck, Show_measurement shoes,
               Show_gap offset_before, Call_merge planck shoes] @ after)"
proof (rule run_returns [OF assms])
  fix planck shoes result h0 u dT stats off sg pct
  assume planck: "create_planck E = Inr planck"
    and shoes: "create_shoes E = Inr shoes"
    and stats: "calculate_concordance_stats E h0 u (value planck) (sigma planck) = Inr stats"
    and off: "stats ''offset_km_s_Mpc'' = Some off"
    and pct: "reduction_pct_of off (initial_gap_of planck shoes) = Inr pct"
    and tr: "fst (main E) =
         [planck_call, shoes_call, Show_measurement planck, Show_measurement shoes,
          Show_gap (initial_gap_of planck shoes), Call_merge planck shoes,
          Show_merged h0 u, Show_delta_T dT,
          Call_stats h0 u (value planck) (sigma planck), Show_offset off,
          Show_significance sg, Show_reduction pct, Show_summary pct sg dT,
          Show_verdict (classify sg)]"
    and d: "d = [''h0_merged'' \<mapsto> h0, ''u_merged'' \<mapsto> u, ''delta_T'' \<mapsto> dT,
          ''concordance_pct'' \<mapsto> pct, ''significance'' \<mapsto> sg]"
  from pct obtain q where q: "fdiv off (fabs (fsub (value shoes) (value planck))) = Inr q"
    and pct_eq: "pct = fmul (fsub (Finite 1) q) (Finite 100)"
    by (auto simp: reduction_pct_of_def initial_gap_of_def split: sum.splits)
  have gap: "fabs (fsub (value shoes) (value planck)) = fabs (fsub (value shoes) (value planck))"
    by (rule refl)
  have result: "d ''concordance_pct'' = Some (fmul (fsub (Finite 1) q) (Finite 100))"
    by (simp add: d pct_eq)
  have order: "fst (main E) =
              [planck_call, shoes_call, Show_measurement planck, Show_measurement shoes,
               Show_gap (fabs (fsub (value shoes) (value planck))), Call_merge planck shoes]
              @ [Show_merged h0 u, Show_delta_T dT,
                 Call_stats h0 u (value planck) (sigma planck), Show_offset off,
                 Show_significance sg, Show_reduction pct, Show_summary pct sg dT,
                 Show_verdict (classify sg)]"
    by (simp add: tr initial_gap_of_def)
  show ?thesis
    by (intro exI conjI, rule planck, rule shoes, rule gap, rule stats, rule off, rule q,
        rule result, rule order)
qed

theorem reduction_pct_formula_witness:
  "snd (main stub_engine) = Inr stub_results \<and>
   (\<exists>planck shoes h0 u stats offset_before offset_after q.
           create_planck stub_engine = Inr planck \<and> create_shoes stub_engine = Inr shoes \<and>
           offset_before = fabs (fsub (value shoes) (value planck)) \<and>
           calculate_concordance_stats stub_engine h0 u (value planck) (sigma planck)
             = Inr stats \<and>
           stats ''offset_km_s_Mpc'' = Some offset_after \<and>
           fdiv offset_after offset_before = Inr q \<and>
           stub_results ''concordance_pct'' = Some (fmul (fsub (Finite 1) q) (Finite 100)) \<and>
           (\<exists>after. fst (main stub_engine) =
              [planck_call, shoes_call, Show_measurement planck, Show_measurement shoes,
               Show_gap offset_before, Call_merge planck shoes] @ after))"
  by (rule conjI [OF stub_run reduction_pct_formula [OF stub_run]])

text \<open>
  Claim C3. When the import fails, the script prints the installation message and ends
  with exit status 1, and no function of the engine has been called.
\<close>

theorem import_failure_fails_fast:
  "script ImportError = (map Print install_message, 1) \<and>
   ''  pip install uha-official>=1.0.0'' \<in> set install_message \<and>
   engine_calls (fst (script ImportError)) = []"
  by (simp add: script_def engine_calls_def install_message_def)

text \<open>
  Claim C4 does not hold as stated: the gap that the run computes from the two seed values
  is the float \<open>6.069999999999993\<close>, which is neither the real number \<open>6.07\<close> nor
  the float written \<open>6.07\<close>.
\<close>

theorem initial_gap_is_not_6_07:
  "create_planck stub_engine = Inr stored_planck \<and>
   create_shoes stub_engine = Inr stored_shoes \<and>
   initial_gap_of stored_planck stored_shoes \<noteq> float_lit 6.07 \<and>
   initial_gap_of stored_planck stored_shoes \<noteq> Finite 6.07"
  by (simp add: stub_planck stub_shoes initial_gap_of_def stored_planck_def stored_shoes_def
      b64_eval)

text \<open>
  Claim C4, amended. The run builds exactly two measurements, with the published seed
  arguments. When the engine stores the two values as they are passed, the gap computed at
  line 102 is the float \<open>427138277158420 / 2 ^ 46\<close>; it is printed at line 103, differs
  from \<open>6.07\<close> by less than \<open>10 ^ - 14\<close>, and rounded to two decimals it is
  \<open>6.07\<close>.
\<close>

theorem seed_measurements_and_initial_gap:
  assumes "create_planck E = Inr planck" and "create_shoes E = Inr shoes"
    and "value planck = float_lit 67.4" and "value shoes = float_lit 73.47"
  shows "filter is_create (fst (main E)) =
           [Call_create ''Planck 2018 CMB'' (float_lit 67.4) (float_lit 0.5) (Finite 1090)
              (float_lit 0.315) ''indirect'',
            Call_create ''SH0ES Distance Ladder'' (float_lit 73.47) (float_lit 0.14)
              (float_lit 0.01) (float_lit 0.300) ''direct''] \<and>
         initial_gap_of planck shoes = Finite (427138277158420 / 2 ^ 46) \<and>
         Show_gap (Finite (427138277158420 / 2 ^ 46)) \<in> set (fst (main E)) \<and>
         \<bar>427138277158420 / 2 ^ 46 - 6.07\<bar> < (1 / 10 ^ 14 :: real) \<and>
         rne (100 * (427138277158420 / 2 ^ 46)) = 607"
proof -
  have tr: "fst (main E) = [planck_call, shoes_call] @ fst (merge_part E planck shoes)"
    using assms(1,2) by (simp add: main_def split: prod.splits)
  have creates: "filter is_create (fst (main E)) = [planck_call, shoes_call]"
    by (simp add: tr merge_part_creates planck_call_def shoes_call_def)
  have gap: "initial_gap_of planck shoes = Finite (427138277158420 / 2 ^ 46)"
    unfolding initial_gap_of_def assms(3,4) by (rule seed_gap)
  from merge_part_trace [of E planck shoes]
  have "Show_gap (initial_gap_of planck shoes) \<in> set (fst (main E))"
    by (auto simp: tr)
  then have shown: "Show_gap (Finite (427138277158420 / 2 ^ 46)) \<in> set (fst (main E))"
    by (simp only: gap)
  have close: "\<bar>427138277158420 / 2 ^ 46 - 6.07\<bar> < (1 / 10 ^ 14 :: real)"
    by simp
  have cents: "rne (100 * (427138277158420 / 2 ^ 46)) = 607"
    by (simp add: rne_def Let_def)
  from creates gap shown close cents show ?thesis
    unfolding planck_call_def shoes_call_def by (intro conjI)
qed

theorem seed_measurements_and_initial_gap_witness:
  "create_planck stub_engine = Inr stored_planck \<and>
   create_shoes stub_engine = Inr stored_shoes \<and>
   value stored_planck = float_lit 67.4 \<and>
   value stored_shoes = float_lit 73.47 \<and>
   filter is_create (fst (main stub_engine)) =
     [Call_create ''Planck 2018 CMB'' (float_lit 67.4) (float_lit 0.5) (Finite 1090)
        (float_lit 0.315) ''indirect'',
      Call_create ''SH0ES Distance Ladder'' (float_lit 73.47) (float_lit 0.14)
        (float_lit 0.01) (float_lit 0.300) ''direct''] \<and>
   initial_gap_of stored_planck stored_shoes = Finite (427138277158420 / 2 ^ 46) \<and>
   Show_gap (Finite (427138277158420 / 2 ^ 46)) \<in> set (fst (main stub_engine)) \<and>
   \<bar>427138277158420 / 2 ^ 46 - 6.07\<bar> < (1 / 10 ^ 14 :: real) \<and>
   rne (100 * (427138277158420 / 2 ^ 46)) = 607"
proof -
  have p: "value stored_planck = float_lit 67.4"
    by (simp only: stored_planck_def measurement.simps)
  have s: "value stored_shoes = float_lit 73.47"
    by (simp only: stored_shoes_def measurement.simps)
  note t = seed_measurements_and_initial_gap [OF stub_planck stub_shoes p s]
  show ?thesis
    by (rule conjI [OF stub_planck conjI [OF stub_shoes conjI [OF p conjI [OF s t]]]])
qed

text \<open>
  Claim C9. When \<open>main\<close> returns, its result is a dictionary with exactly the five keys
  \<open>h0_merged\<close>, \<open>u_merged\<close>, \<open>delta_T\<close>, \<open>concordance_pct\<close> and
  \<open>significance\<close>; the first three entries are those of the merge result, the fourth
  is the reduction computed at line 131 and the fifth is the entry \<open>significance_sigma\<close>
  of the concordance statistics.
\<close>

theorem main_result_dictionary:
  assumes "snd (main E) = Inr d"
  shows "\<exists>planck shoes result h0 u stats off pct.
           create_planck E = Inr planck \<and> create_shoes E = Inr shoes \<and>
           merge_with_epistemic_correction E planck shoes = Inr result \<and>
           result ''h0_merged'' = Some h0 \<and> result ''u_merged'' = Some u \<and>
           calculate_concordance_stats E h0 u (value planck) (sigma planck) = Inr stats \<and>
           stats ''offset_km_s_Mpc'' = Some off \<and>
           reduction_pct_of off (initial_gap_of planck shoes) = Inr pct \<and>
           dom d = {''h0_merged'', ''u_merged'', ''delta_T'', ''concordance_pct'',
                    ''significance''} \<and>
           d ''h0_merged'' = result ''h0_merged'' \<and>
           d ''u_merged'' = result ''u_merged'' \<and>
           d ''delta_T'' = result ''delta_T'' \<and>
           d ''concordance_pct'' = Some pct \<and>
           d ''significance'' = stats ''significance_sigma''"
proof (rule run_returns [OF assms])
  fix planck shoes result h0 u dT stats off sg pct
  assume planck: "create_planck E = Inr planck"
    and shoes: "create_shoes E = Inr shoes"
    and result: "merge_with_epistemic_correction E planck shoes = Inr result"
    and h0: "result ''h0_merged'' = Some h0"
    and u: "result ''u_merged'' = Some u"
    and dT: "result ''delta_T'' = Some dT"
    and stats: "calculate_concordance_stats E h0 u (value planck) (sigma planck) = Inr stats"
    and off: "stats ''offset_km_s_Mpc'' = Some off"
    and sg: "stats ''significance_sigma'' = Some sg"
    and pct: "reduction_pct_of off (initial_gap_of planck shoes) = Inr pct"
    and d: "d = [''h0_merged'' \<mapsto> h0, ''u_merged'' \<mapsto> u, ''delta_T'' \<mapsto> dT,
          ''concordance_pct'' \<mapsto> pct, ''significance'' \<mapsto> sg]"
  have keys: "dom d = {''h0_merged'', ''u_merged'', ''delta_T'', ''concordance_pct'',
                       ''significance''}"
    unfolding d by auto
  have v1: "d ''h0_merged'' = result ''h0_merged''" by (simp add: d h0)
  have v2: "d ''u_merged'' = result ''u_merged''" by (simp add: d u)
  have v3: "d ''delta_T'' = result ''delta_T''" by (simp add: d dT)
  have v4: "d ''concordance_pct'' = Some pct" by (simp add: d)
  have v5: "d ''significance'' = stats ''significance_sigma''" by (simp add: d sg)
  show ?thesis
    by (intro exI conjI, rule planck, rule shoes, rule result, rule h0, rule u, rule stats,
        rule off, rule pct, rule keys, rule v1, rule v2, rule v3, rule v4, rule v5)
qed

theorem main_result_dictionary_witness:
  "snd (main stub_engine) = Inr stub_results \<and>
   (\<exists>planck shoes result h0 u stats off pct.
           create_planck stub_engine = Inr planck \<and> create_shoes stub_engine = Inr shoes \<and>
           merge_with_epistemic_correction stub_engine planck shoes = Inr result \<and>
           result ''h0_merged'' = Some h0 \<and> result ''u_merged'' = Some u \<and>
           calculate_concordance_stats stub_engine h0 u (value planck) (sigma planck)
             = Inr stats \<and>
           stats ''offset_km_s_Mpc'' = Some off \<and>
           reduction_pct_of off (initial_gap_of planck shoes) = Inr pct \<and>
           dom stub_results = {''h0_merged'', ''u_merged'', ''delta_T'', ''concordance_pct'',
                    ''significance''} \<and>
           stub_results ''h0_merged'' = result ''h0_merged'' \<and>
           stub_results ''u_merged'' = result ''u_merged'' \<and>
           stub_results ''delta_T'' = result ''delta_T'' \<and>
           stub_results ''concordance_pct'' = Some pct \<and>
           stub_results ''significance'' = stats ''significance_sigma'')"
  by (rule conjI [OF stub_run main_result_dictionary [OF stub_run]])

text \<open>
  Claim C10. Whenever a run calls the concordance step, the reference arguments of the
  call are the value and the sigma of the measurement built with the method
  \<open>indirect\<close> (Planck), and the run makes no other call of the concordance step.
\<close>

theorem concordance_reference_is_planck:
  assumes "Call_stats h u v s \<in> set (fst (main E))"
  shows "\<exists>planck.
           create_measurement E ''Planck 2018 CMB'' (float_lit 67.4) (float_lit 0.5)
             (Finite 1090) (float_lit 0.315) ''indirect'' = Inr planck \<and>
           v = value planck \<and> s = sigma planck \<and>
           filter is_stats (fst (main E)) = [Call_stats h u (value planck) (sigma planck)]"
proof -
  from assms have member: "Call_stats h u v s \<in> set (filter is_stats (fst (main E)))"
    by simp
  then have "filter is_stats (fst (main E)) \<noteq> []"
    by (cases "filter is_stats (fst (main E))") simp_all
  with main_stats [of E] obtain planck h0 u0 where
    planck: "create_planck E = Inr planck"
    and calls: "filter is_stats (fst (main E)) = [Call_stats h0 u0 (value planck) (sigma planck)]"
    by blast
  from member calls have same: "h = h0" "u = u0" "v = value planck" "s = sigma planck"
    by simp_all
  from planck have created: "create_measurement E ''Planck 2018 CMB'' (float_lit 67.4)
      (float_lit 0.5) (Finite 1090) (float_lit 0.315) ''indirect'' = Inr planck"
    by (simp only: create_planck_def)
  from calls same have only: "filter is_stats (fst (main E)) =
      [Call_stats h u (value planck) (sigma planck)]"
    by simp
  show ?thesis
    by (intro exI conjI, rule created, rule same(3), rule same(4), rule only)
qed

theorem concordance_reference_is_planck_witness:
  "Call_stats (Finite 67.5) (Finite 1) (float_lit 67.4) (float_lit 0.5)
     \<in> set (fst (main stub_engine)) \<and>
   (\<exists>planck.
      create_measurement stub_engine ''Planck 2018 CMB'' (float_lit 67.4) (float_lit 0.5)
        (Finite 1090) (float_lit 0.315) ''indirect'' = Inr planck \<and>
      float_lit 67.4 = value planck \<and> float_lit 0.5 = sigma planck \<and>
      filter is_stats (fst (main stub_engine)) =
        [Call_stats (Finite 67.5) (Finite 1) (value planck) (sigma planck)])"
  by (rule conjI [OF stub_stats_call concordance_reference_is_planck [OF stub_stats_call]])

section \<open>The claims about the engine of the specification\<close>

lemma valid_measurement_iff:
  "valid_measurement m \<longleftrightarrow>
     0 < sigma m \<and> 0 \<le> redshift m \<and> method m \<in> {''direct'', ''indirect''}"
  by (auto simp: valid_measurement_def MeasurementModel_def Let_def)

lemma valid_seed_planck: "valid_measurement seed_planck"
  by (simp add: valid_measurement_iff seed_planck_def)

lemma valid_seed_shoes: "valid_measurement seed_shoes"
  by (simp add: valid_measurement_iff seed_shoes_def)

lemma merge_valid:
  assumes "valid_measurement a" and "valid_measurement b"
  shows "merge f threshold a b =
     Inr \<lparr>h0_merged =
            (if method a \<noteq> method b
             then if method a = ''direct''
                  then (1 / (sigma a)\<^sup>2 * value a + 1 / (sigma b)\<^sup>2 * value b) /
                         (1 / (sigma a)\<^sup>2 + 1 / (sigma b)\<^sup>2) + f * (value a - value b)
                  else if method b = ''direct''
                  then (1 / (sigma a)\<^sup>2 * value a + 1 / (sigma b)\<^sup>2 * value b) /
                         (1 / (sigma a)\<^sup>2 + 1 / (sigma b)\<^sup>2) + f * (value b - value a)
                  else (1 / (sigma a)\<^sup>2 * value a + 1 / (sigma b)\<^sup>2 * value b) /
                         (1 / (sigma a)\<^sup>2 + 1 / (sigma b)\<^sup>2)
             else (1 / (sigma a)\<^sup>2 * value a + 1 / (sigma b)\<^sup>2 * value b) /
                    (1 / (sigma a)\<^sup>2 + 1 / (sigma b)\<^sup>2)),
          u_merged = max 1 (\<bar>value a - value b\<bar> / sqrt ((sigma a)\<^sup>2 + (sigma b)\<^sup>2) / threshold)
                       * sqrt (1 / (1 / (sigma a)\<^sup>2 + 1 / (sigma b)\<^sup>2)),
          delta_T = \<bar>value a - value b\<bar> / sqrt ((sigma a)\<^sup>2 + (sigma b)\<^sup>2)\<rparr>"
  using assms by (simp add: merge_def valid_measurement_iff Let_def)

lemma valid_far_shoes: "valid_measurement far_shoes"
  by (simp add: valid_measurement_iff far_shoes_def seed_shoes_def)

text \<open>
  Claim C5. For valid measurements and a positive threshold, the merge returns an
  estimate whose uncertainty is at least the precision-weighted combination
  \<open>sqrt (1 / (1 / sigma a ^ 2 + 1 / sigma b ^ 2))\<close> of the input uncertainties.
\<close>

theorem merged_uncertainty_lower_bound:
  assumes "valid_measurement a" and "valid_measurement b" and "0 < threshold"
  shows "\<exists>r. merge f threshold a b = Inr r \<and>
             sqrt (1 / (1 / (sigma a)\<^sup>2 + 1 / (sigma b)\<^sup>2)) \<le> u_merged r"
proof -
  let ?naive = "sqrt (1 / (1 / (sigma a)\<^sup>2 + 1 / (sigma b)\<^sup>2))"
  let ?k = "max 1 (\<bar>value a - value b\<bar> / sqrt ((sigma a)\<^sup>2 + (sigma b)\<^sup>2) / threshold)"
  have "0 \<le> ?naive" by simp
  moreover have "1 \<le> ?k" by simp
  ultimately have "1 * ?naive \<le> ?k * ?naive"
    by (rule mult_right_mono [rotated])
  then show ?thesis
    by (simp add: merge_valid [OF assms(1,2)])
qed

theorem merged_uncertainty_lower_bound_witness:
  "valid_measurement seed_planck \<and> valid_measurement seed_shoes \<and> (0::real) < 4 \<and>
   (\<exists>r. merge 0.1 4 seed_planck seed_shoes = Inr r \<and>
        sqrt (1 / (1 / (sigma seed_planck)\<^sup>2 + 1 / (sigma seed_shoes)\<^sup>2)) \<le> u_merged r)"
proof -
  have pos: "(0::real) < 4" by simp
  from merged_uncertainty_lower_bound [OF valid_seed_planck valid_seed_shoes pos, where f = "0.1"]
  show ?thesis
    using valid_seed_planck valid_seed_shoes pos by (intro conjI)
qed

text \<open>
  Claim C6. For valid measurements, merging in either order gives the same epistemic
  distance \<open>delta_T\<close>.
\<close>

theorem delta_T_symmetric:
  assumes "valid_measurement a" and "valid_measurement b"
  shows "\<exists>r r'. merge f threshold a b = Inr r \<and> merge f threshold b a = Inr r' \<and>
                delta_T r = delta_T r'"
  by (simp add: merge_valid [OF assms] merge_valid [OF assms(2,1)] abs_minus_commute
      add.commute)

theorem delta_T_symmetric_witness:
  "valid_measurement seed_planck \<and> valid_measurement seed_shoes \<and>
   (\<exists>r r'. merge 0.1 4 seed_planck seed_shoes = Inr r \<and>
           merge 0.1 4 seed_shoes seed_planck = Inr r' \<and> delta_T r = delta_T r')"
  using delta_T_symmetric [OF valid_seed_planck valid_seed_shoes, where f = "0.1" and threshold = 4]
    valid_seed_planck valid_seed_shoes by (intro conjI)

text \<open>
  No constructor raises \<open>ValidationError\<close> for every invalid sigma or redshift and
  \<open>UnknownMethodError\<close> for every unknown method tag: an input with both faults can
  raise only one of them.
\<close>

lemma no_constructor_raises_both:
  fixes c :: "real \<Rightarrow> real \<Rightarrow> string \<Rightarrow> error + 'a"
  shows "\<not> (\<forall>s z me.
            (c s z me = Inl ValidationError \<longleftrightarrow> \<not> 0 < s \<or> z < 0) \<and>
            (c s z me = Inl UnknownMethodError \<longleftrightarrow> me \<notin> {''direct'', ''indirect''}))"
proof
  assume both: "\<forall>s z me.
            (c s z me = Inl ValidationError \<longleftrightarrow> \<not> 0 < s \<or> z < 0) \<and>
            (c s z me = Inl UnknownMethodError \<longleftrightarrow> me \<notin> {''direct'', ''indirect''})"
  from both have "c 0 0 ''bogus'' = Inl ValidationError" by simp
  moreover from both have "c 0 0 ''bogus'' = Inl UnknownMethodError" by simp
  ultimately show False by simp
qed

lemma MeasurementModel_cases:
  "MeasurementModel order n v s z om me =
     (if 0 < s \<and> 0 \<le> z \<and> me \<in> {''direct'', ''indirect''}
      then Inr \<lparr>name = n, value = v, sigma = s, redshift = z, omega_m = om, method = me\<rparr>
      else if me \<in> {''direct'', ''indirect''} then Inl ValidationError
      else if 0 < s \<and> 0 \<le> z then Inl UnknownMethodError
      else if order = Numbers_first then Inl ValidationError
      else Inl UnknownMethodError)"
  by (cases order) (simp_all add: MeasurementModel_def Let_def)

text \<open>
  Claim C7 does not hold as stated. With a sigma of zero and an unknown method tag, the
  construction raises one exception only: when the numbers are checked first it is
  \<open>ValidationError\<close>, so \<open>UnknownMethodError\<close> is not raised although the tag is
  unknown; when the tag is checked first it is \<open>UnknownMethodError\<close>, so
  \<open>ValidationError\<close> is not raised although sigma is not positive.
\<close>

theorem one_error_for_two_faults:
  "\<not> (0::real) < 0 \<and> ''bogus'' \<notin> {''direct'', ''indirect''} \<and>
   MeasurementModel Numbers_first ''m'' 70 0 0 0.3 ''bogus'' \<noteq> Inl UnknownMethodError \<and>
   MeasurementModel Method_first ''m'' 70 0 0 0.3 ''bogus'' \<noteq> Inl ValidationError"
  by (simp add: MeasurementModel_def)

text \<open>
  Claim C7, amended. Whichever check is made first, the construction fails exactly when
  sigma is not strictly positive, the redshift is negative or the method tag is neither
  \<open>direct\<close> nor \<open>indirect\<close>, and what the caller gets is then \<open>ValidationError\<close> or
  \<open>UnknownMethodError\<close>, never a measurement. \<open>ValidationError\<close> is raised only when
  sigma is not strictly positive or the redshift is negative, and exactly then when the
  method tag is a recognised one; \<open>UnknownMethodError\<close> is raised only when the method tag
  is not a recognised one, and exactly then when sigma and redshift are valid. Which of
  the two is raised when both faults are present is left open.
\<close>

theorem construction_errors:
  "((\<exists>e. MeasurementModel order n v s z om me = Inl e) \<longleftrightarrow>
      \<not> 0 < s \<or> z < 0 \<or> me \<notin> {''direct'', ''indirect''}) \<and>
   (MeasurementModel order n v s z om me = Inl e \<longrightarrow>
      e = ValidationError \<or> e = UnknownMethodError) \<and>
   (MeasurementModel order n v s z om me = Inl ValidationError \<longrightarrow> \<not> 0 < s \<or> z < 0) \<and>
   (MeasurementModel order n v s z om me = Inl UnknownMethodError \<longrightarrow>
      me \<notin> {''direct'', ''indirect''}) \<and>
   (me \<in> {''direct'', ''indirect''} \<longrightarrow>
      (MeasurementModel order n v s z om me = Inl ValidationError \<longleftrightarrow> \<not> 0 < s \<or> z < 0)) \<and>
   (0 < s \<and> 0 \<le> z \<longrightarrow>
      (MeasurementModel order n v s z om me = Inl UnknownMethodError \<longleftrightarrow>
         me \<notin> {''direct'', ''indirect''}))"
proof (intro conjI)
  show "(\<exists>e. MeasurementModel order n v s z om me = Inl e) \<longleftrightarrow>
      \<not> 0 < s \<or> z < 0 \<or> me \<notin> {''direct'', ''indirect''}"
    by (auto simp: MeasurementModel_cases)
  show "MeasurementModel order n v s z om me = Inl e \<longrightarrow>
      e = ValidationError \<or> e = UnknownMethodError"
    by (auto simp: MeasurementModel_cases split: if_splits)
  show "MeasurementModel order n v s z om me = Inl ValidationError \<longrightarrow> \<not> 0 < s \<or> z < 0"
    by (auto simp: MeasurementModel_cases split: if_splits)
  show "MeasurementModel order n v s z om me = Inl UnknownMethodError \<longrightarrow>
      me \<notin> {''direct'', ''indirect''}"
    by (auto simp: MeasurementModel_cases split: if_splits)
  show "me \<in> {''direct'', ''indirect''} \<longrightarrow>
      (MeasurementModel order n v s z om me = Inl ValidationError \<longleftrightarrow> \<not> 0 < s \<or> z < 0)"
    by (auto simp: MeasurementModel_cases)
  show "0 < s \<and> 0 \<le> z \<longrightarrow>
      (MeasurementModel order n v s z om me = Inl UnknownMethodError \<longleftrightarrow>
         me \<notin> {''direct'', ''indirect''})"
    by (auto simp: MeasurementModel_cases)
qed

theorem construction_errors_witness:
  "\<not> (0::real) < 0 \<and> ''indirect'' \<in> {''direct'', ''indirect''} \<and>
   MeasurementModel Method_first ''Planck 2018 CMB'' 67.4 0 1090 0.315 ''indirect''
     = Inl ValidationError \<and>
   (0::real) < 0.5 \<and> (0::real) \<le> 1090 \<and> ''bogus'' \<notin> {''direct'', ''indirect''} \<and>
   MeasurementModel Numbers_first ''Planck 2018 CMB'' 67.4 0.5 1090 0.315 ''bogus''
     = Inl UnknownMethodError \<and>
   (\<exists>e. MeasurementModel Numbers_first ''Planck 2018 CMB'' 67.4 0.5 1090 0.315 ''bogus''
           = Inl e)"
proof -
  have bad_sigma: "\<not> (0::real) < 0" by simp
  have good_tag: "''indirect'' \<in> {''direct'', ''indirect''}" by simp
  have good_sigma: "(0::real) < 0.5" by simp
  have good_redshift: "(0::real) \<le> 1090" by simp
  have bad_tag: "''bogus'' \<notin> {''direct'', ''indirect''}" by simp
  note first = construction_errors [of Method_first "''Planck 2018 CMB''" "67.4" 0 1090
      "0.315" "''indirect''" ValidationError]
  note second = construction_errors [of Numbers_first "''Planck 2018 CMB''" "67.4" "0.5" 1090
      "0.315" "''bogus''" UnknownMethodError]
  note single_number_fault =
    first [THEN conjunct2, THEN conjunct2, THEN conjunct2, THEN conjunct2, THEN conjunct1]
  note single_tag_fault =
    second [THEN conjunct2, THEN conjunct2, THEN conjunct2, THEN conjunct2, THEN conjunct2]
  note fails = second [THEN conjunct1]
  have 1: "MeasurementModel Method_first ''Planck 2018 CMB'' 67.4 0 1090 0.315 ''indirect''
     = Inl ValidationError"
    by (rule single_number_fault [THEN mp, OF good_tag, THEN iffD2, OF disjI1, OF bad_sigma])
  have 2: "MeasurementModel Numbers_first ''Planck 2018 CMB'' 67.4 0.5 1090 0.315 ''bogus''
     = Inl UnknownMethodError"
    by (rule single_tag_fault [THEN mp, OF conjI [OF good_sigma good_redshift], THEN iffD2,
          OF bad_tag])
  have 3: "\<exists>e. MeasurementModel Numbers_first ''Planck 2018 CMB'' 67.4 0.5 1090 0.315 ''bogus''
           = Inl e"
    by (rule fails [THEN iffD2, OF disjI2, OF disjI2, OF bad_tag])
  show ?thesis
    by (intro conjI, rule bad_sigma, rule good_tag, rule 1, rule good_sigma,
        rule good_redshift, rule bad_tag, rule 2, rule 3)
qed

text \<open>
  Claim C8. With both sigmas fixed and a positive threshold, a pair of valid measurements
  whose values are at least as far apart gets a merged uncertainty that is at least as
  large.
\<close>

theorem merged_uncertainty_monotone:
  assumes "valid_measurement a" and "valid_measurement b"
    and "valid_measurement a'" and "valid_measurement b'"
    and "sigma a' = sigma a" and "sigma b' = sigma b"
    and "\<bar>value a - value b\<bar> \<le> \<bar>value a' - value b'\<bar>"
    and "0 < threshold"
  shows "\<exists>r r'. merge f threshold a b = Inr r \<and> merge f threshold a' b' = Inr r' \<and>
                u_merged r \<le> u_merged r'"
proof -
  let ?s = "sqrt ((sigma a)\<^sup>2 + (sigma b)\<^sup>2)"
  let ?naive = "sqrt (1 / (1 / (sigma a)\<^sup>2 + 1 / (sigma b)\<^sup>2))"
  have s: "0 \<le> ?s" by simp
  have "\<bar>value a - value b\<bar> / ?s \<le> \<bar>value a' - value b'\<bar> / ?s"
    using assms(7) s by (rule divide_right_mono)
  then have "\<bar>value a - value b\<bar> / ?s / threshold \<le> \<bar>value a' - value b'\<bar> / ?s / threshold"
    using less_imp_le [OF assms(8)] by (rule divide_right_mono)
  then have "max 1 (\<bar>value a - value b\<bar> / ?s / threshold)
               \<le> max 1 (\<bar>value a' - value b'\<bar> / ?s / threshold)"
    by (rule max.mono [OF order_refl])
  moreover have "0 \<le> ?naive" by simp
  ultimately have "max 1 (\<bar>value a - value b\<bar> / ?s / threshold) * ?naive
               \<le> max 1 (\<bar>value a' - value b'\<bar> / ?s / threshold) * ?naive"
    by (rule mult_right_mono)
  then show ?thesis
    by (simp add: merge_valid [OF assms(1,2)] merge_valid [OF assms(3,4)] assms(5,6))
qed

theorem merged_uncertainty_monotone_witness:
  "valid_measurement seed_planck \<and> valid_measurement seed_shoes \<and>
   valid_measurement seed_planck \<and> valid_measurement far_shoes \<and>
   sigma seed_planck = sigma seed_planck \<and> sigma far_shoes = sigma seed_shoes \<and>
   \<bar>value seed_planck - value seed_shoes\<bar> \<le> \<bar>value seed_planck - value far_shoes\<bar> \<and>
   (0::real) < 4 \<and>
   (\<exists>r r'. merge 0.1 4 seed_planck seed_shoes = Inr r \<and>
           merge 0.1 4 seed_planck far_shoes = Inr r' \<and> u_merged r \<le> u_merged r')"
proof -
  have same: "sigma seed_planck = sigma seed_planck" by (rule refl)
  have same': "sigma far_shoes = sigma seed_shoes" by (simp add: far_shoes_def)
  have wider: "\<bar>value seed_planck - value seed_shoes\<bar> \<le> \<bar>value seed_planck - value far_shoes\<bar>"
    by (simp add: far_shoes_def seed_planck_def seed_shoes_def)
  have pos: "(0::real) < 4" by simp
  note m = merged_uncertainty_monotone [OF valid_seed_planck valid_seed_shoes
      valid_seed_planck valid_far_shoes same same' wider pos, where f = "0.1"]
  show ?thesis
    by (intro conjI, rule valid_seed_planck, rule valid_seed_shoes, rule valid_seed_planck,
        rule valid_far_shoes, rule same, rule same', rule wider, rule pos, rule m)
qed

end
